theory Spec2Isabelle
  imports Main "HOL-Library.Word"
begin

unbundle bit_operations_syntax

section \<open>Session storage: key namespacing and the backend factory\<close>

text \<open>
  A shallow embedding of \<^verbatim>\<open>crudadmin/session/storage.py\<close>: the two concrete
  methods of \<^verbatim>\<open>AbstractSessionStorage\<close>, the \<^verbatim>\<open>SessionStorage\<close> factory class and
  the function \<^verbatim>\<open>get_session_storage\<close>.
\<close>

subsection \<open>Python values and keyword-argument dictionaries\<close>

text \<open>
  The values a keyword argument can carry. \<open>PObj\<close> is an opaque object (a database
  configuration, a connection pool) identified by a name; it defines neither
  \<^verbatim>\<open>__bool__\<close> nor \<^verbatim>\<open>__len__\<close>, so Python counts it as true.
\<close>

datatype pyval =
    PNone
  | PBool bool
  | PInt int
  | PStr string
  | PList "pyval list"
  | PDict "(string \<times> pyval) list"
  | PObj string

text \<open>Python's truth value of an object, as \<^verbatim>\<open>not db_config\<close> tests it.\<close>

fun truthy :: "pyval \<Rightarrow> bool" where
  "truthy PNone = False"
| "truthy (PBool b) = b"
| "truthy (PInt i) = (i \<noteq> 0)"
| "truthy (PStr s) = (s \<noteq> [])"
| "truthy (PList xs) = (xs \<noteq> [])"
| "truthy (PDict d) = (d \<noteq> [])"
| "truthy (PObj n) = True"

text \<open>
  \<^verbatim>\<open>**kwargs\<close> is a dictionary from argument names to values, kept here in
  insertion order as \<^verbatim>\<open>kwargs.items()\<close> yields it. A Python dictionary holds
  a key once; the operations below look a key up at its first entry and remove every entry
  of it, which on such a list is the same.
\<close>

type_synonym kwargs = "(string \<times> pyval) list"

text \<open>\<^verbatim>\<open>key in kwargs\<close>\<close>

definition dict_contains :: "kwargs \<Rightarrow> string \<Rightarrow> bool" where
  "dict_contains d key = (key \<in> set (map fst d))"

text \<open>\<^verbatim>\<open>kwargs.get(key)\<close>, with \<open>None\<close> for a missing key\<close>

definition dict_get :: "kwargs \<Rightarrow> string \<Rightarrow> pyval option" where
  "dict_get d key = map_of d key"

text \<open>
  \<^verbatim>\<open>kwargs.pop(key, default)\<close>: the value removed (or the default) and the
  dictionary left.
\<close>

definition dict_pop :: "kwargs \<Rightarrow> string \<Rightarrow> pyval \<Rightarrow> pyval \<times> kwargs" where
  "dict_pop d key dflt =
     (case map_of d key of
        None \<Rightarrow> (dflt, d)
      | Some v \<Rightarrow> (v, filter (\<lambda>(k, v). k \<noteq> key) d))"

text \<open>
  \<^verbatim>\<open>d[key] = value\<close>: an existing key keeps its position, a new one goes last.
\<close>

fun dict_set :: "kwargs \<Rightarrow> string \<Rightarrow> pyval \<Rightarrow> kwargs" where
  "dict_set [] key value = [(key, value)]"
| "dict_set ((k, v) # d) key value =
     (if k = key then (k, value) # d else (k, v) # dict_set d key value)"

text \<open>
  The dictionary comprehension
  \<^verbatim>\<open>{k: v for k, v in kwargs.items() if k in allowed}\<close>.
\<close>

definition filter_keys :: "kwargs \<Rightarrow> string list \<Rightarrow> kwargs" where
  "filter_keys d allowed = filter (\<lambda>(k, v). k \<in> set allowed) d"

subsection \<open>The abstract store: prefix, expiration, key derivation\<close>

record abstract_session_storage =
  prefix :: string
  expiration :: int

text \<open>
  \<^verbatim>\<open>__init__(self, prefix="session:", expiration=1800)\<close>: an argument left out
  is \<open>None\<close> here and takes the default of the signature.
\<close>

definition init :: "string option \<Rightarrow> int option \<Rightarrow> abstract_session_storage" where
  "init prefix_arg expiration_arg =
     \<lparr> prefix = (case prefix_arg of None \<Rightarrow> ''session:'' | Some p \<Rightarrow> p),
       expiration = (case expiration_arg of None \<Rightarrow> 1800 | Some e \<Rightarrow> e) \<rparr>"

text \<open>\<^verbatim>\<open>get_key\<close>: the f-string \<^verbatim>\<open>f"{self.prefix}{session_id}"\<close>.\<close>

definition get_key :: "abstract_session_storage \<Rightarrow> string \<Rightarrow> string" where
  "get_key self session_id = prefix self @ session_id"

subsection \<open>Session identifiers\<close>

text \<open>
  \<^verbatim>\<open>generate_session_id\<close> returns \<^verbatim>\<open>str(uuid4())\<close>. Both functions are
  Python's standard library (\<^verbatim>\<open>uuid.py\<close>), not code of this repository; they are
  written out here as that module defines them. \<^verbatim>\<open>uuid4()\<close> is
  \<^verbatim>\<open>UUID(bytes=os.urandom(16), version=4)\<close>: the constructor reads the 16 bytes as
  one big-endian integer and then sets the variant and the version,
  \<^verbatim>\<open>int &= ~(0xc000 << 48); int |= 0x8000 << 48; int &= ~(0xf000 << 64); int |= version << 76\<close>.
  The 16 random bytes are an argument of the model, as the 128-bit integer they encode.
\<close>

definition uuid4 :: "128 word \<Rightarrow> 128 word" where
  "uuid4 random_bits =
     (let i = random_bits AND NOT (push_bit 48 0xc000);
          i = i OR push_bit 48 0x8000;
          i = i AND NOT (push_bit 64 0xf000);
          i = i OR push_bit 76 4
      in i)"

text \<open>
  \<^verbatim>\<open>UUID.__str__\<close>: \<^verbatim>\<open>hex = '%032x' % self.int\<close>, cut into groups of 8, 4, 4, 4
  and 12 digits joined by hyphens. The integer is below \<open>2 ^ 128\<close>, so the 32 digits are
  its 32 four-bit groups, the highest first; \<open>nibble w k\<close> is the group at bits
  \<open>4 * k\<close> to \<open>4 * k + 3\<close>.
\<close>

definition hex_digit :: "nat \<Rightarrow> char" where
  "hex_digit n = ''0123456789abcdef'' ! n"

definition nibble :: "128 word \<Rightarrow> nat \<Rightarrow> nat" where
  "nibble w k = unat (drop_bit (4 * k) w AND 0xf)"

definition hex32 :: "128 word \<Rightarrow> string" where
  "hex32 w = map (\<lambda>i. hex_digit (nibble w (31 - i))) [0..<32]"

definition uuid_str :: "128 word \<Rightarrow> string" where
  "uuid_str w =
     (let hex = hex32 w
      in take 8 hex @ ''-'' @ take 4 (drop 8 hex) @ ''-'' @ take 4 (drop 12 hex) @ ''-'' @
         take 4 (drop 16 hex) @ ''-'' @ drop 20 hex)"

definition generate_session_id :: "abstract_session_storage \<Rightarrow> 128 word \<Rightarrow> string" where
  "generate_session_id self random_bits = uuid_str (uuid4 random_bits)"

subsection \<open>The factory\<close>

datatype error = ValueError string | TypeError string

text \<open>
  A constructor call of a driver class, recorded by the class and the keyword arguments
  it is given; the call of the hybrid store also holds its \<^verbatim>\<open>redis_storage\<close> and
  \<^verbatim>\<open>database_storage\<close> arguments. A store is known by the call that made it.
\<close>

datatype storage =
    RedisSessionStorage kwargs
  | MemcachedSessionStorage kwargs
  | MemorySessionStorage kwargs
  | DatabaseSessionStorage kwargs
  | HybridSessionStorage storage storage kwargs

text \<open>
  The driver classes are defined in \<^verbatim>\<open>backends/\<close>, outside this module, so what
  their constructors do with a call is a parameter of the factory: \<open>drivers call\<close> is the
  exception the constructor raises for that call, and \<open>None\<close> when it returns the new
  store. The imports of the driver modules are taken to succeed.
\<close>

type_synonym drivers = "storage \<Rightarrow> error option"

definition construct :: "drivers \<Rightarrow> storage \<Rightarrow> error + storage" where
  "construct drivers call = (case drivers call of None \<Rightarrow> Inr call | Some e \<Rightarrow> Inl e)"

text \<open>The \<^verbatim>\<open>model_type\<close> argument: a pydantic model class.\<close>

datatype model_type = BaseModel | ModelClass string

text \<open>
  The body of \<^verbatim>\<open>get_session_storage(backend, model_type, **kwargs)\<close>, with
  \<open>kwargs\<close> the dictionary the function receives (it never holds the names of the two
  positional parameters). The result pairs the constructor calls made, in the order the
  function makes them and with a call that raised as the last one, with what the function
  returns (\<open>Inr\<close>) or raises (\<open>Inl\<close>). An exception of a constructor is not caught,
  so it ends the function.
\<close>

definition get_session_storage ::
  "drivers \<Rightarrow> string \<Rightarrow> model_type \<Rightarrow> kwargs \<Rightarrow> storage list \<times> (error + storage)" where
  "get_session_storage drivers backend model_type kwargs =
     (if backend = ''redis'' then
        (let redis_kwargs =
               filter_keys kwargs
                 [''prefix'', ''expiration'', ''host'', ''port'', ''db'', ''username'',
                  ''password'', ''pool_size'', ''connect_timeout''];
             call = RedisSessionStorage redis_kwargs
         in ([call], construct drivers call))
      else if backend = ''memcached'' then
        (let memcached_kwargs =
               filter_keys kwargs
                 [''prefix'', ''expiration'', ''host'', ''port'', ''pool_size''];
             call = MemcachedSessionStorage memcached_kwargs
         in ([call], construct drivers call))
      else if backend = ''memory'' then
        (let memory_kwargs = filter_keys kwargs [''prefix'', ''expiration''];
             call = MemorySessionStorage memory_kwargs
         in ([call], construct drivers call))
      else if backend = ''database'' then
        (let database_kwargs =
               filter_keys kwargs [''prefix'', ''expiration'', ''db_config''];
             call = DatabaseSessionStorage database_kwargs
         in ([call], construct drivers call))
      else if backend = ''hybrid'' then
        (let (db_config, kwargs) = dict_pop kwargs ''db_config'' PNone
         in if \<not> truthy db_config then
              ([], Inl (ValueError ''db_config is required for hybrid backend''))
            else
              (let redis_params = [''db'', ''username'', ''password''];
                   has_redis_params =
                     list_ex (\<lambda>param. dict_contains kwargs param) redis_params;
                   (use_redis, kwargs) =
                     (if has_redis_params then (True, kwargs)
                      else (let (cache_backend, kwargs) =
                                  dict_pop kwargs ''_cache_backend'' (PStr ''redis'')
                            in (cache_backend = PStr ''redis'', kwargs)));
                   cache_call =
                     (if use_redis then
                        (let cache_kwargs =
                               filter_keys kwargs
                                 [''prefix'', ''expiration'', ''host'', ''port'', ''db'',
                                  ''username'', ''password'', ''pool_size'',
                                  ''connect_timeout'']
                         in RedisSessionStorage cache_kwargs)
                      else
                        (let cache_kwargs =
                               filter_keys kwargs
                                 [''prefix'', ''expiration'', ''host'', ''port'', ''pool_size'']
                         in MemcachedSessionStorage cache_kwargs))
               in case construct drivers cache_call of
                    Inl e \<Rightarrow> ([cache_call], Inl e)
                  | Inr cache_storage \<Rightarrow>
                      (let database_kwargs =
                             dict_set (filter_keys kwargs [''prefix'', ''expiration''])
                               ''db_config'' db_config;
                           hybrid_kwargs = filter_keys kwargs [''prefix'', ''expiration''];
                           database_call = DatabaseSessionStorage database_kwargs
                       in case construct drivers database_call of
                            Inl e \<Rightarrow> ([cache_call, database_call], Inl e)
                          | Inr database_storage \<Rightarrow>
                              (let hybrid_call =
                                     HybridSessionStorage cache_storage database_storage
                                       hybrid_kwargs
                               in ([cache_call, database_call, hybrid_call],
                                   construct drivers hybrid_call)))))
      else ([], Inl (ValueError (''Unknown backend: '' @ backend))))"

text \<open>
  The call expression \<^verbatim>\<open>get_session_storage(backend, model_type, **kwargs)\<close> with
  two positional arguments and an unpacked dictionary. Python binds the arguments before
  the body runs: the first entry of the dictionary that is named like a parameter already
  given by position raises \<^verbatim>\<open>TypeError\<close>
  "get_session_storage() got multiple values for argument '...'".
\<close>

definition call_get_session_storage ::
  "drivers \<Rightarrow> string \<Rightarrow> model_type \<Rightarrow> kwargs \<Rightarrow> storage list \<times> (error + storage)" where
  "call_get_session_storage drivers backend model_type kwargs =
     (case find (\<lambda>(k, v). k \<in> set [''backend'', ''model_type'']) kwargs of
        Some (k, v) \<Rightarrow>
          ([], Inl (TypeError (''get_session_storage() got multiple values for argument '' @
                               [CHR 0x27] @ k @ [CHR 0x27])))
      | None \<Rightarrow> get_session_storage drivers backend model_type kwargs)"

text \<open>
  \<^verbatim>\<open>SessionStorage.__new__(cls, backend="memory", **kwargs)\<close>: a backend left out
  is \<open>None\<close> here. \<open>kwargs\<close> is the dictionary \<^verbatim>\<open>__new__\<close> receives, so it
  holds no \<^verbatim>\<open>backend\<close> entry. The body is the call
  \<^verbatim>\<open>get_session_storage(backend, cast(Type[T], BaseModel), **kwargs)\<close>.
\<close>

definition SessionStorage_new ::
  "drivers \<Rightarrow> string option \<Rightarrow> kwargs \<Rightarrow> storage list \<times> (error + storage)" where
  "SessionStorage_new drivers backend_arg kwargs =
     (let backend = (case backend_arg of None \<Rightarrow> ''memory'' | Some b \<Rightarrow> b)
      in call_get_session_storage drivers backend BaseModel kwargs)"

subsection \<open>Vocabulary of the properties\<close>



text \<open>Drivers none of whose constructors raises.\<close>

definition accepting :: drivers where
  "accepting call = None"





text \<open>
  Modelled from the spec: the drivers that implement \<^verbatim>\<open>create\<close>,
  \<^verbatim>\<open>update\<close> and \<^verbatim>\<open>extend\<close> are not part of this module (the methods are
  abstract here). The spec says: the default expiration is "used whenever an operation
  omits an explicit override".
\<close>

definition effective_expiration :: "abstract_session_storage \<Rightarrow> int option \<Rightarrow> int" where
  "effective_expiration self override =
     (case override of None \<Rightarrow> expiration self | Some seconds \<Rightarrow> seconds)"

text \<open>
  The textual form of a version-4 UUID, as a pattern: \<^verbatim>\<open>x\<close> stands for a lower-case
  hexadecimal digit, \<^verbatim>\<open>y\<close> for one of \<^verbatim>\<open>8\<close>, \<^verbatim>\<open>9\<close>, \<^verbatim>\<open>a\<close>, \<^verbatim>\<open>b\<close>
  (the variant), and every other character for itself.
\<close>

definition is_hex :: "char \<Rightarrow> bool" where
  "is_hex c = (c \<in> set ''0123456789abcdef'')"

definition fits :: "char \<Rightarrow> char \<Rightarrow> bool" where
  "fits p c =
     (if p = CHR ''x'' then is_hex c
      else if p = CHR ''y'' then c \<in> set ''89ab''
      else c = p)"

definition uuid4_format :: "string \<Rightarrow> bool" where
  "uuid4_format s = list_all2 fits ''xxxxxxxx-xxxx-4xxx-yxxx-xxxxxxxxxxxx'' s"

section \<open>Properties\<close>

subsection \<open>Dictionary operations\<close>

lemma dict_get_filter_keys:
  "dict_get (filter_keys d allowed) key = (if key \<in> set allowed then dict_get d key else None)"
  unfolding dict_get_def filter_keys_def by (induction d) auto

lemma dict_contains_iff: "dict_contains d key = (dict_get d key \<noteq> None)"
  unfolding dict_contains_def dict_get_def by (induction d) auto

lemma dict_set_fresh:
  "\<not> dict_contains d key \<Longrightarrow> dict_set d key v = d @ [(key, v)]"
  unfolding dict_contains_def by (induction d) auto

lemma dict_get_append:
  "dict_get (d @ e) key = (case dict_get d key of None \<Rightarrow> dict_get e key | Some v \<Rightarrow> Some v)"
  unfolding dict_get_def by (simp add: map_add_def)

lemma fst_dict_pop:
  "fst (dict_pop d key dflt) = (case dict_get d key of None \<Rightarrow> dflt | Some v \<Rightarrow> v)"
  by (simp add: dict_pop_def dict_get_def split: option.splits)

lemma filter_keys_dict_pop:
  "key \<notin> set allowed \<Longrightarrow> filter_keys (snd (dict_pop d key dflt)) allowed = filter_keys d allowed"
proof -
  assume fresh: "key \<notin> set allowed"
  have "filter (\<lambda>(k, v). k \<in> set allowed) (filter (\<lambda>(k, v). k \<noteq> key) d)
          = filter (\<lambda>(k, v). k \<in> set allowed) d"
    using fresh by (induction d) auto
  then show ?thesis
    by (simp add: dict_pop_def filter_keys_def split: option.splits del: filter_filter)
qed

lemma dict_get_dict_pop:
  "key' \<noteq> key \<Longrightarrow> dict_get (snd (dict_pop d key dflt)) key' = dict_get d key'"
proof -
  assume ne: "key' \<noteq> key"
  have "map_of (filter (\<lambda>(k, v). k \<noteq> key) d) key' = map_of d key'"
    using ne by (induction d) auto
  then show ?thesis
    by (simp add: dict_pop_def dict_get_def split: option.splits)
qed

subsection \<open>The branches of the factory\<close>

lemma construct_accepting: "construct accepting call = Inr call"
  by (simp add: construct_def accepting_def)



lemma memory_call:
  "get_session_storage drv ''memory'' mt kw =
     ([MemorySessionStorage (filter_keys kw [''prefix'', ''expiration''])],
      construct drv (MemorySessionStorage (filter_keys kw [''prefix'', ''expiration''])))"
  by (simp add: get_session_storage_def Let_def)

lemma database_call:
  "get_session_storage drv ''database'' mt kw =
     ([DatabaseSessionStorage (filter_keys kw [''prefix'', ''expiration'', ''db_config''])],
      construct drv
        (DatabaseSessionStorage (filter_keys kw [''prefix'', ''expiration'', ''db_config''])))"
  by (simp add: get_session_storage_def Let_def)


lemma hybrid_fail_absent:
  "dict_get kw ''db_config'' = None \<Longrightarrow>
   get_session_storage drv ''hybrid'' mt kw =
     ([], Inl (ValueError ''db_config is required for hybrid backend''))"
  by (simp add: get_session_storage_def case_prod_beta fst_dict_pop)

lemma hybrid_fail_falsy:
  "dict_get kw ''db_config'' = Some cfg \<Longrightarrow> \<not> truthy cfg \<Longrightarrow>
   get_session_storage drv ''hybrid'' mt kw =
     ([], Inl (ValueError ''db_config is required for hybrid backend''))"
  by (simp add: get_session_storage_def case_prod_beta fst_dict_pop)

text \<open>
  Past the guard, the hybrid branch in closed form: the three calls it makes in turn, each
  one only if the call before it returned.
\<close>

lemma hybrid_ok:
  assumes "dict_get kw ''db_config'' = Some cfg" and "truthy cfg"
  shows "get_session_storage drv ''hybrid'' mt kw =
    (let cache =
       (if dict_contains kw ''db'' \<or> dict_contains kw ''username'' \<or> dict_contains kw ''password''
           \<or> dict_get kw ''_cache_backend'' = None
           \<or> dict_get kw ''_cache_backend'' = Some (PStr ''redis'')
        then RedisSessionStorage
               (filter_keys kw [''prefix'', ''expiration'', ''host'', ''port'', ''db'',
                   ''username'', ''password'', ''pool_size'', ''connect_timeout''])
        else MemcachedSessionStorage
               (filter_keys kw [''prefix'', ''expiration'', ''host'', ''port'', ''pool_size'']));
       db = DatabaseSessionStorage
              (filter_keys kw [''prefix'', ''expiration''] @ [(''db_config'', cfg)]);
       st = HybridSessionStorage cache db (filter_keys kw [''prefix'', ''expiration''])
     in case drv cache of
          Some e \<Rightarrow> ([cache], Inl e)
        | None \<Rightarrow>
            (case drv db of
               Some e \<Rightarrow> ([cache, db], Inl e)
             | None \<Rightarrow> ([cache, db, st], construct drv st)))"
proof -
  let ?cache = "if dict_contains kw ''db'' \<or> dict_contains kw ''username'' \<or>
        dict_contains kw ''password'' \<or> dict_get kw ''_cache_backend'' = None \<or>
        dict_get kw ''_cache_backend'' = Some (PStr ''redis'')
     then RedisSessionStorage
            (filter_keys kw [''prefix'', ''expiration'', ''host'', ''port'', ''db'',
                ''username'', ''password'', ''pool_size'', ''connect_timeout''])
     else MemcachedSessionStorage
            (filter_keys kw [''prefix'', ''expiration'', ''host'', ''port'', ''pool_size''])"
  let ?db = "DatabaseSessionStorage
       (filter_keys kw [''prefix'', ''expiration''] @ [(''db_config'', cfg)])"
  have fresh: "\<not> dict_contains (filter_keys d [''prefix'', ''expiration'']) ''db_config''" for d
    by (simp add: dict_contains_iff dict_get_filter_keys)
  have raw: "get_session_storage drv ''hybrid'' mt kw =
      (case construct drv ?cache of
         Inl e \<Rightarrow> ([?cache], Inl e)
       | Inr cache_storage \<Rightarrow>
           (case construct drv ?db of
              Inl e \<Rightarrow> ([?cache, ?db], Inl e)
            | Inr database_storage \<Rightarrow>
                ([?cache, ?db,
                  HybridSessionStorage cache_storage database_storage
                    (filter_keys kw [''prefix'', ''expiration''])],
                 construct drv
                   (HybridSessionStorage cache_storage database_storage
                      (filter_keys kw [''prefix'', ''expiration''])))))"
    using assms
    by (simp add: get_session_storage_def case_prod_beta Let_def fst_dict_pop
        filter_keys_dict_pop dict_get_dict_pop dict_contains_iff dict_set_fresh [OF fresh]
        split: option.splits cong: sum.case_cong)
  show ?thesis
    unfolding raw Let_def
    by (cases "drv ?cache"; cases "drv ?db") (simp_all only: construct_def option.case sum.case)
qed

lemma backend_cases:
  fixes backend :: string and kwargs :: kwargs
  obtains (redis) "backend = ''redis''" | (memcached) "backend = ''memcached''"
    | (memory) "backend = ''memory''" | (database) "backend = ''database''"
    | (absent) "backend = ''hybrid''" "dict_get kwargs ''db_config'' = None"
    | (falsy) cfg where "backend = ''hybrid''" "dict_get kwargs ''db_config'' = Some cfg"
        "\<not> truthy cfg"
    | (ok) cfg where "backend = ''hybrid''" "dict_get kwargs ''db_config'' = Some cfg"
        "truthy cfg"
    | (unknown) "backend \<noteq> ''redis''" "backend \<noteq> ''memcached''" "backend \<noteq> ''memory''"
        "backend \<noteq> ''database''" "backend \<noteq> ''hybrid''"
proof (cases "dict_get kwargs ''db_config''")
  case None
  with redis memcached memory database absent unknown show thesis by metis
next
  case (Some cfg)
  with redis memcached memory database falsy ok unknown show thesis by metis
qed

subsection \<open>The hybrid backend needs its database configuration\<close>

text \<open>
  C1. A call for the hybrid backend whose keyword arguments have no \<^verbatim>\<open>db_config\<close>
  entry raises the \<open>ValueError\<close> "db_config is required for hybrid backend", and no
  constructor has been called by then, whatever the drivers are: the list of constructor
  calls is empty and nothing is returned in place of the missing configuration.
\<close>

theorem hybrid_requires_db_config:
  "\<not> dict_contains kwargs ''db_config'' \<Longrightarrow>
     get_session_storage drivers ''hybrid'' model_type kwargs =
       ([], Inl (ValueError ''db_config is required for hybrid backend''))"
  by (simp add: dict_contains_iff hybrid_fail_absent)

theorem hybrid_requires_db_config_witness:
  "\<not> dict_contains [(''prefix'', PStr ''s:''), (''host'', PStr ''cache.local'')] ''db_config'' \<and>
   get_session_storage accepting ''hybrid'' BaseModel
       [(''prefix'', PStr ''s:''), (''host'', PStr ''cache.local'')] =
     ([], Inl (ValueError ''db_config is required for hybrid backend''))"
proof -
  have absent:
    "\<not> dict_contains [(''prefix'', PStr ''s:''), (''host'', PStr ''cache.local'')] ''db_config''"
    by (simp add: dict_contains_def)
  show ?thesis
    using absent hybrid_requires_db_config [OF absent, of accepting BaseModel] by simp
qed

subsection \<open>Which calls construct a store\<close>




subsection \<open>What the hybrid backend is made of\<close>

text \<open>
  C3. Whenever the hybrid call returns a store, that store is a
  \<open>HybridSessionStorage\<close> whose fast tier is a \<open>RedisSessionStorage\<close> or a
  \<open>MemcachedSessionStorage\<close> and whose durable tier is a
  \<open>DatabaseSessionStorage\<close> constructed with the \<^verbatim>\<open>db_config\<close> of the call;
  the constructor calls made are exactly these three, the two drivers first.
\<close>

theorem hybrid_composition:
  assumes "get_session_storage drivers ''hybrid'' model_type kwargs = (made, Inr st)"
  shows "\<exists>cache cache_kwargs database_kwargs hybrid_kwargs cfg.
           st = HybridSessionStorage cache (DatabaseSessionStorage database_kwargs) hybrid_kwargs \<and>
           (cache = RedisSessionStorage cache_kwargs \<or>
            cache = MemcachedSessionStorage cache_kwargs) \<and>
           dict_get kwargs ''db_config'' = Some cfg \<and> truthy cfg \<and>
           dict_get database_kwargs ''db_config'' = Some cfg \<and>
           made = [cache, DatabaseSessionStorage database_kwargs, st]"
proof (cases rule: backend_cases [where backend = "''hybrid''" and kwargs = kwargs])
  case absent
  with assms show ?thesis by (simp add: hybrid_fail_absent)
next
  case (falsy cfg)
  with assms show ?thesis by (simp add: hybrid_fail_falsy)
next
  case (ok cfg)
  have "dict_get (filter_keys kwargs [''prefix'', ''expiration''] @ [(''db_config'', cfg)])
          ''db_config'' = Some cfg"
  proof -
    have "dict_get [(''db_config'', cfg)] ''db_config'' = Some cfg"
      by (simp add: dict_get_def)
    then show ?thesis
      by (simp add: dict_get_append dict_get_filter_keys)
  qed
  with assms ok show ?thesis
    by (auto simp: hybrid_ok [OF ok(2,3)] Let_def construct_def split: option.splits)
qed simp_all

theorem hybrid_composition_witness:
  "get_session_storage accepting ''hybrid'' BaseModel
       [(''db_config'', PObj ''cfg''), (''host'', PStr ''h''), (''prefix'', PStr ''s:'')] =
     ([RedisSessionStorage [(''host'', PStr ''h''), (''prefix'', PStr ''s:'')],
       DatabaseSessionStorage [(''prefix'', PStr ''s:''), (''db_config'', PObj ''cfg'')],
       HybridSessionStorage
         (RedisSessionStorage [(''host'', PStr ''h''), (''prefix'', PStr ''s:'')])
         (DatabaseSessionStorage [(''prefix'', PStr ''s:''), (''db_config'', PObj ''cfg'')])
         [(''prefix'', PStr ''s:'')]],
      Inr (HybridSessionStorage
         (RedisSessionStorage [(''host'', PStr ''h''), (''prefix'', PStr ''s:'')])
         (DatabaseSessionStorage [(''prefix'', PStr ''s:''), (''db_config'', PObj ''cfg'')])
         [(''prefix'', PStr ''s:'')])) \<and>
   dict_get [(''prefix'', PStr ''s:''), (''db_config'', PObj ''cfg'')] ''db_config'' =
     dict_get [(''db_config'', PObj ''cfg''), (''host'', PStr ''h''), (''prefix'', PStr ''s:'')]
       ''db_config''"
proof -
  have cfg: "dict_get [(''db_config'', PObj ''cfg''), (''host'', PStr ''h''),
      (''prefix'', PStr ''s:'')] ''db_config'' = Some (PObj ''cfg'')"
    and ok: "truthy (PObj ''cfg'')"
    by (simp_all add: dict_get_def)
  have run: "get_session_storage accepting ''hybrid'' BaseModel
       [(''db_config'', PObj ''cfg''), (''host'', PStr ''h''), (''prefix'', PStr ''s:'')] =
     ([RedisSessionStorage [(''host'', PStr ''h''), (''prefix'', PStr ''s:'')],
       DatabaseSessionStorage [(''prefix'', PStr ''s:''), (''db_config'', PObj ''cfg'')],
       HybridSessionStorage
         (RedisSessionStorage [(''host'', PStr ''h''), (''prefix'', PStr ''s:'')])
         (DatabaseSessionStorage [(''prefix'', PStr ''s:''), (''db_config'', PObj ''cfg'')])
         [(''prefix'', PStr ''s:'')]],
      Inr (HybridSessionStorage
         (RedisSessionStorage [(''host'', PStr ''h''), (''prefix'', PStr ''s:'')])
         (DatabaseSessionStorage [(''prefix'', PStr ''s:''), (''db_config'', PObj ''cfg'')])
         [(''prefix'', PStr ''s:'')]))"
    unfolding hybrid_ok [OF cfg ok]
    by (simp add: Let_def dict_contains_def dict_get_def filter_keys_def accepting_def
        construct_def)
  from hybrid_composition [OF run] show ?thesis
    using run by (auto simp: dict_get_def)
qed

subsection \<open>Choosing the cache tier\<close>

text \<open>
  C4. For a hybrid call with a true \<^verbatim>\<open>db_config\<close>, the cache tier is the Redis
  driver if one of the keys \<^verbatim>\<open>db\<close>, \<^verbatim>\<open>username\<close>, \<^verbatim>\<open>password\<close> is present,
  or \<^verbatim>\<open>_cache_backend\<close> is absent or equal to the string \<^verbatim>\<open>redis\<close>; otherwise it
  is the Memcached driver. This is the first constructor the call invokes, it is the fast
  tier of any store the call returns, and with drivers that never raise the call returns
  the hybrid store over it.
\<close>

theorem cache_tier_selection:
  assumes "dict_get kwargs ''db_config'' = Some cfg" and "truthy cfg"
  shows "(\<exists>cache_kwargs later.
            fst (get_session_storage drivers ''hybrid'' model_type kwargs) =
              (if dict_contains kwargs ''db'' \<or> dict_contains kwargs ''username'' \<or>
                  dict_contains kwargs ''password'' \<or>
                  \<not> dict_contains kwargs ''_cache_backend'' \<or>
                  dict_get kwargs ''_cache_backend'' = Some (PStr ''redis'')
               then RedisSessionStorage cache_kwargs
               else MemcachedSessionStorage cache_kwargs) # later) \<and>
         (\<forall>st. snd (get_session_storage drivers ''hybrid'' model_type kwargs) = Inr st \<longrightarrow>
            (\<exists>cache_kwargs database hybrid_kwargs.
               st = HybridSessionStorage
                      (if dict_contains kwargs ''db'' \<or> dict_contains kwargs ''username'' \<or>
                          dict_contains kwargs ''password'' \<or>
                          \<not> dict_contains kwargs ''_cache_backend'' \<or>
                          dict_get kwargs ''_cache_backend'' = Some (PStr ''redis'')
                       then RedisSessionStorage cache_kwargs
                       else MemcachedSessionStorage cache_kwargs)
                      database hybrid_kwargs)) \<and>
         (\<exists>made cache_kwargs database hybrid_kwargs.
            get_session_storage accepting ''hybrid'' model_type kwargs =
              (made,
               Inr (HybridSessionStorage
                      (if dict_contains kwargs ''db'' \<or> dict_contains kwargs ''username'' \<or>
                          dict_contains kwargs ''password'' \<or>
                          \<not> dict_contains kwargs ''_cache_backend'' \<or>
                          dict_get kwargs ''_cache_backend'' = Some (PStr ''redis'')
                       then RedisSessionStorage cache_kwargs
                       else MemcachedSessionStorage cache_kwargs)
                      database hybrid_kwargs)))"
proof (intro conjI)
  show "\<exists>cache_kwargs later.
      fst (get_session_storage drivers ''hybrid'' model_type kwargs) =
        (if dict_contains kwargs ''db'' \<or> dict_contains kwargs ''username'' \<or>
            dict_contains kwargs ''password'' \<or>
            \<not> dict_contains kwargs ''_cache_backend'' \<or>
            dict_get kwargs ''_cache_backend'' = Some (PStr ''redis'')
         then RedisSessionStorage cache_kwargs
         else MemcachedSessionStorage cache_kwargs) # later"
    unfolding hybrid_ok [OF assms] Let_def
    by (simp add: dict_contains_iff split: option.splits)
  show "\<forall>st. snd (get_session_storage drivers ''hybrid'' model_type kwargs) = Inr st \<longrightarrow>
      (\<exists>cache_kwargs database hybrid_kwargs.
         st = HybridSessionStorage
                (if dict_contains kwargs ''db'' \<or> dict_contains kwargs ''username'' \<or>
                    dict_contains kwargs ''password'' \<or>
                    \<not> dict_contains kwargs ''_cache_backend'' \<or>
                    dict_get kwargs ''_cache_backend'' = Some (PStr ''redis'')
                 then RedisSessionStorage cache_kwargs
                 else MemcachedSessionStorage cache_kwargs)
                database hybrid_kwargs)"
    unfolding hybrid_ok [OF assms] Let_def
    by (simp add: dict_contains_iff construct_def split: option.splits)
  show "\<exists>made cache_kwargs database hybrid_kwargs.
      get_session_storage accepting ''hybrid'' model_type kwargs =
        (made,
         Inr (HybridSessionStorage
                (if dict_contains kwargs ''db'' \<or> dict_contains kwargs ''username'' \<or>
                    dict_contains kwargs ''password'' \<or>
                    \<not> dict_contains kwargs ''_cache_backend'' \<or>
                    dict_get kwargs ''_cache_backend'' = Some (PStr ''redis'')
                 then RedisSessionStorage cache_kwargs
                 else MemcachedSessionStorage cache_kwargs)
                database hybrid_kwargs))"
    unfolding hybrid_ok [OF assms] Let_def
    by (simp add: dict_contains_iff construct_def accepting_def)
qed

theorem cache_tier_selection_witness:
  "(\<exists>made cache_kwargs database hybrid_kwargs.
      get_session_storage accepting ''hybrid'' BaseModel [(''db_config'', PObj ''cfg'')] =
        (made, Inr (HybridSessionStorage (RedisSessionStorage cache_kwargs)
                      database hybrid_kwargs))) \<and>
   (\<exists>made cache_kwargs database hybrid_kwargs.
      get_session_storage accepting ''hybrid'' BaseModel
          [(''db_config'', PObj ''cfg''), (''_cache_backend'', PStr ''memcached'')] =
        (made, Inr (HybridSessionStorage (MemcachedSessionStorage cache_kwargs)
                      database hybrid_kwargs)))"
proof -
  have cfg1: "dict_get [(''db_config'', PObj ''cfg'')] ''db_config'' = Some (PObj ''cfg'')"
    and cfg2: "dict_get [(''db_config'', PObj ''cfg''), (''_cache_backend'', PStr ''memcached'')]
                 ''db_config'' = Some (PObj ''cfg'')"
    and ok: "truthy (PObj ''cfg'')"
    by (simp_all add: dict_get_def)
  from cache_tier_selection [OF cfg1 ok, where drivers = accepting and model_type = BaseModel]
    cache_tier_selection [OF cfg2 ok, where drivers = accepting and model_type = BaseModel]
  show ?thesis
    by (simp add: dict_contains_def dict_get_def)
qed

text \<open>
  C9. For a hybrid call with a true \<^verbatim>\<open>db_config\<close>: a Redis-specific key
  (\<^verbatim>\<open>db\<close>, \<^verbatim>\<open>username\<close>, \<^verbatim>\<open>password\<close>) forces the Redis cache tier whatever
  \<^verbatim>\<open>_cache_backend\<close> says; and with no such key, any \<^verbatim>\<open>_cache_backend\<close> value
  other than the string \<^verbatim>\<open>redis\<close> selects the Memcached driver. In both cases that
  driver's constructor is the first one called, and with drivers that never raise the call
  returns the hybrid store over it.
\<close>

theorem redis_params_override_cache_backend:
  assumes "dict_get kwargs ''db_config'' = Some cfg" and "truthy cfg"
  shows "(dict_contains kwargs ''db'' \<or> dict_contains kwargs ''username'' \<or>
          dict_contains kwargs ''password'' \<longrightarrow>
            (\<exists>cache_kwargs later.
               fst (get_session_storage drivers ''hybrid'' model_type kwargs) =
                 RedisSessionStorage cache_kwargs # later) \<and>
            (\<exists>made cache_kwargs database hybrid_kwargs.
               get_session_storage accepting ''hybrid'' model_type kwargs =
                 (made, Inr (HybridSessionStorage (RedisSessionStorage cache_kwargs)
                               database hybrid_kwargs)))) \<and>
         (\<not> dict_contains kwargs ''db'' \<and> \<not> dict_contains kwargs ''username'' \<and>
          \<not> dict_contains kwargs ''password'' \<and>
          dict_get kwargs ''_cache_backend'' = Some chosen \<and> chosen \<noteq> PStr ''redis'' \<longrightarrow>
            (\<exists>cache_kwargs later.
               fst (get_session_storage drivers ''hybrid'' model_type kwargs) =
                 MemcachedSessionStorage cache_kwargs # later) \<and>
            (\<exists>made cache_kwargs database hybrid_kwargs.
               get_session_storage accepting ''hybrid'' model_type kwargs =
                 (made, Inr (HybridSessionStorage (MemcachedSessionStorage cache_kwargs)
                               database hybrid_kwargs))))"
proof -
  have first: "fst (case drv c of
        Some e \<Rightarrow> ([c], Inl e)
      | None \<Rightarrow> (case drv d of
                   Some e \<Rightarrow> ([c, d], Inl e)
                 | None \<Rightarrow> ([c, d, h], construct drv h))) = c #
      (case drv c of Some e \<Rightarrow> [] | None \<Rightarrow> (case drv d of Some e \<Rightarrow> [d] | None \<Rightarrow> [d, h]))"
    for drv :: drivers and c d h
    by (simp split: option.splits)
  show ?thesis
    unfolding hybrid_ok [OF assms] Let_def first
    by (simp add: dict_contains_iff construct_def accepting_def)
qed

theorem redis_params_override_cache_backend_witness:
  "(\<exists>made cache_kwargs database hybrid_kwargs.
      get_session_storage accepting ''hybrid'' BaseModel
          [(''db_config'', PObj ''cfg''), (''_cache_backend'', PStr ''memcached''),
           (''db'', PInt 0)] =
        (made, Inr (HybridSessionStorage (RedisSessionStorage cache_kwargs)
                      database hybrid_kwargs))) \<and>
   (\<exists>made cache_kwargs database hybrid_kwargs.
      get_session_storage accepting ''hybrid'' BaseModel
          [(''db_config'', PObj ''cfg''), (''_cache_backend'', PStr ''Redis'')] =
        (made, Inr (HybridSessionStorage (MemcachedSessionStorage cache_kwargs)
                      database hybrid_kwargs)))"
proof -
  have cfg1: "dict_get [(''db_config'', PObj ''cfg''), (''_cache_backend'', PStr ''memcached''),
                 (''db'', PInt 0)] ''db_config'' = Some (PObj ''cfg'')"
    and cfg2: "dict_get [(''db_config'', PObj ''cfg''), (''_cache_backend'', PStr ''Redis'')]
                 ''db_config'' = Some (PObj ''cfg'')"
    and ok: "truthy (PObj ''cfg'')"
    by (simp_all add: dict_get_def)
  from redis_params_override_cache_backend
      [OF cfg1 ok, where drivers = accepting and model_type = BaseModel]
    redis_params_override_cache_backend
      [OF cfg2 ok, where drivers = accepting and model_type = BaseModel
        and chosen = "PStr ''Redis''"]
  show ?thesis
    by (simp add: dict_contains_def dict_get_def)
qed

subsection \<open>Keyword arguments are filtered by allow-list\<close>





subsection \<open>Key derivation and defaults\<close>

text \<open>
  C6. The key of a session id in a store constructed with prefix \<open>p\<close> is \<open>p\<close> followed
  by the session id; for the default prefix it is \<^verbatim>\<open>session:\<close> followed by the id.
  Under one store two session ids have the same key only if they are the same id.
\<close>

theorem get_key_is_concatenation:
  "get_key (init (Some p) e) session_id = p @ session_id \<and>
   get_key (init None e) session_id = ''session:'' @ session_id \<and>
   get_key self session_id = prefix self @ session_id \<and>
   (get_key self session_id = get_key self session_id') = (session_id = session_id')"
  by (simp add: get_key_def init_def)

text \<open>
  C7. A store constructed with no prefix and no expiration has the prefix
  \<^verbatim>\<open>session:\<close> and the expiration 1800; a given prefix or expiration is the field's
  value, so both are set at construction. An operation given no expiration of its own uses
  the store's field, and one given an expiration uses that.
\<close>

theorem default_prefix_and_expiration:
  "init None None = \<lparr> prefix = ''session:'', expiration = 1800 \<rparr> \<and>
   prefix (init None e) = ''session:'' \<and>
   expiration (init p None) = 1800 \<and>
   prefix (init (Some given_prefix) e) = given_prefix \<and>
   expiration (init p (Some given_expiration)) = given_expiration \<and>
   effective_expiration (init p None) None = 1800 \<and>
   effective_expiration self None = expiration self \<and>
   effective_expiration self (Some seconds) = seconds"
  by (simp add: init_def effective_expiration_def)

subsection \<open>The factory class\<close>

lemma no_positional_clash:
  "\<not> dict_contains kwargs ''backend'' \<Longrightarrow> \<not> dict_contains kwargs ''model_type'' \<Longrightarrow>
     find (\<lambda>(k, v). k \<in> set [''backend'', ''model_type'']) kwargs = None"
  by (induction kwargs) (auto simp: dict_contains_def)

lemma model_type_clash:
  "\<not> dict_contains kwargs ''backend'' \<Longrightarrow> dict_contains kwargs ''model_type'' \<Longrightarrow>
     \<exists>v. find (\<lambda>(k, v). k \<in> set [''backend'', ''model_type'']) kwargs = Some (''model_type'', v)"
  by (induction kwargs) (auto simp: dict_contains_def)

lemma call_binds:
  assumes "\<not> dict_contains kwargs ''backend''" and "\<not> dict_contains kwargs ''model_type''"
  shows "call_get_session_storage drv backend mt kwargs =
           get_session_storage drv backend mt kwargs"
  unfolding call_get_session_storage_def
  by (simp only: no_positional_clash [OF assms] option.case)

lemma call_clashes:
  assumes "\<not> dict_contains kwargs ''backend''" and "dict_contains kwargs ''model_type''"
  shows "call_get_session_storage drv backend mt kwargs =
           ([], Inl (TypeError (''get_session_storage() got multiple values for argument '' @
                                [CHR 0x27] @ ''model_type'' @ [CHR 0x27])))"
proof -
  from model_type_clash [OF assms] obtain v where
    "find (\<lambda>(k, v). k \<in> set [''backend'', ''model_type'']) kwargs = Some (''model_type'', v)"
    by blast
  then show ?thesis
    unfolding call_get_session_storage_def by (simp only: option.case prod.case)
qed

text \<open>
  C10. \<^verbatim>\<open>SessionStorage\<close> called with no backend is the call
  \<^verbatim>\<open>get_session_storage("memory", BaseModel, **kwargs)\<close>, and a backend that is given
  is passed on as it is. When the keyword arguments hold no \<^verbatim>\<open>model_type\<close> entry
  the memory branch runs: the one constructor called is that of
  \<open>MemorySessionStorage\<close>, with the \<^verbatim>\<open>prefix\<close> and \<^verbatim>\<open>expiration\<close> entries,
  and its store is returned unless that constructor raises. With a \<^verbatim>\<open>model_type\<close>
  entry the call collides with the positional \<^verbatim>\<open>BaseModel\<close> and raises
  \<^verbatim>\<open>TypeError\<close> before any backend is looked at, for \<^verbatim>\<open>SessionStorage\<close> and
  for the direct call alike.
\<close>

theorem session_storage_default_backend:
  "SessionStorage_new drivers None kwargs =
     call_get_session_storage drivers ''memory'' BaseModel kwargs \<and>
   SessionStorage_new drivers (Some backend) kwargs =
     call_get_session_storage drivers backend BaseModel kwargs \<and>
   (\<not> dict_contains kwargs ''backend'' \<and> \<not> dict_contains kwargs ''model_type'' \<longrightarrow>
      SessionStorage_new drivers None kwargs =
        get_session_storage drivers ''memory'' BaseModel kwargs \<and>
      SessionStorage_new drivers None kwargs =
        ([MemorySessionStorage (filter_keys kwargs [''prefix'', ''expiration''])],
         construct drivers (MemorySessionStorage (filter_keys kwargs [''prefix'', ''expiration'']))) \<and>
      SessionStorage_new accepting None kwargs =
        ([MemorySessionStorage (filter_keys kwargs [''prefix'', ''expiration''])],
         Inr (MemorySessionStorage (filter_keys kwargs [''prefix'', ''expiration''])))) \<and>
   (\<not> dict_contains kwargs ''backend'' \<and> dict_contains kwargs ''model_type'' \<longrightarrow>
      SessionStorage_new drivers backend_arg kwargs =
        ([], Inl (TypeError (''get_session_storage() got multiple values for argument '' @
                             [CHR 0x27] @ ''model_type'' @ [CHR 0x27]))))"
  by (simp add: SessionStorage_new_def call_binds call_clashes memory_call construct_accepting)

theorem session_storage_default_backend_witness:
  "SessionStorage_new accepting None [(''prefix'', PStr ''s:''), (''host'', PStr ''h'')] =
     ([MemorySessionStorage [(''prefix'', PStr ''s:'')]],
      Inr (MemorySessionStorage [(''prefix'', PStr ''s:'')])) \<and>
   SessionStorage_new accepting None [(''model_type'', PObj ''MyModel'')] =
     ([], Inl (TypeError (''get_session_storage() got multiple values for argument '' @
                          [CHR 0x27] @ ''model_type'' @ [CHR 0x27]))) \<and>
   SessionStorage_new accepting None [(''model_type'', PObj ''MyModel'')] =
     call_get_session_storage accepting ''memory'' BaseModel [(''model_type'', PObj ''MyModel'')]"
proof -
  have plain: "\<not> dict_contains [(''prefix'', PStr ''s:''), (''host'', PStr ''h'')] ''backend'' \<and>
      \<not> dict_contains [(''prefix'', PStr ''s:''), (''host'', PStr ''h'')] ''model_type''"
    and clash: "\<not> dict_contains [(''model_type'', PObj ''MyModel'')] ''backend'' \<and>
      dict_contains [(''model_type'', PObj ''MyModel'')] ''model_type''"
    by (simp_all add: dict_contains_def)
  have kept: "filter_keys [(''prefix'', PStr ''s:''), (''host'', PStr ''h'')]
      [''prefix'', ''expiration''] = [(''prefix'', PStr ''s:'')]"
    by (simp add: filter_keys_def)
  from session_storage_default_backend
      [where drivers = accepting and backend_arg = None
        and kwargs = "[(''prefix'', PStr ''s:''), (''host'', PStr ''h'')]"] plain
  have one: "SessionStorage_new accepting None
      [(''prefix'', PStr ''s:''), (''host'', PStr ''h'')] =
     ([MemorySessionStorage [(''prefix'', PStr ''s:'')]],
      Inr (MemorySessionStorage [(''prefix'', PStr ''s:'')]))"
    unfolding kept by blast
  from session_storage_default_backend
      [where drivers = accepting and backend_arg = None
        and kwargs = "[(''model_type'', PObj ''MyModel'')]"] clash
  have two: "SessionStorage_new accepting None [(''model_type'', PObj ''MyModel'')] =
     ([], Inl (TypeError (''get_session_storage() got multiple values for argument '' @
                          [CHR 0x27] @ ''model_type'' @ [CHR 0x27])))"
    and three: "SessionStorage_new accepting None [(''model_type'', PObj ''MyModel'')] =
     call_get_session_storage accepting ''memory'' BaseModel
       [(''model_type'', PObj ''MyModel'')]"
    by blast+
  show ?thesis
    using one two three by blast
qed

subsection \<open>Generated session identifiers\<close>

lemma nibble_less: "nibble w k < 16"
proof -
  have "drop_bit (4 * k) w AND 0xf \<le> 0xf"
    by (rule word_and_le1)
  then have "unat (drop_bit (4 * k) w AND 0xf) \<le> unat (0xf :: 128 word)"
    by (simp only: word_le_nat_alt)
  then show ?thesis by (simp add: nibble_def)
qed

lemma is_hex_hex_digit: "n < 16 \<Longrightarrow> is_hex (hex_digit n)"
  unfolding is_hex_def hex_digit_def by (rule nth_mem) simp

lemma upt_32: "[0..<32] = [0, 1, 2, 3, 4, 5, 6, 7, 8, 9, 10, 11, 12, 13, 14, 15, 16, 17, 18,
    19, 20, 21, 22, 23, 24, 25, 26, 27, 28, 29, 30, 31 :: nat]"
  by code_simp

lemma hex32_explicit:
  "hex32 w = map (\<lambda>k. hex_digit (nibble w k))
     [31, 30, 29, 28, 27, 26, 25, 24, 23, 22, 21, 20, 19, 18, 17, 16,
      15, 14, 13, 12, 11, 10, 9, 8, 7, 6, 5, 4, 3, 2, 1, 0]"
  by (simp add: hex32_def upt_32)

lemma uuid_constants:
  "(0xc000 :: 128 word) = push_bit 14 (mask 2)"
  "(0x8000 :: 128 word) = push_bit 15 1"
  "(0xf000 :: 128 word) = push_bit 12 (mask 4)"
  "(4 :: 128 word) = push_bit 2 1"
  "(0xf :: 128 word) = mask 4"
  by (simp_all add: push_bit_eq_mult mask_eq_exp_minus_1)

lemma bit_uuid4:
  "bit (uuid4 r) n \<longleftrightarrow>
     n < 128 \<and>
     (if 76 \<le> n \<and> n < 80 then n = 78
      else if 62 \<le> n \<and> n < 64 then n = 63
      else bit r n)"
  unfolding uuid4_def Let_def uuid_constants
  by (simp only: bit_simps) (auto dest: bit_imp_le_length)

lemma bit_nibble:
  "bit (drop_bit (4 * k) w AND 0xf :: 128 word) n \<longleftrightarrow> n < 4 \<and> bit w (4 * k + n)"
  unfolding uuid_constants
  by (simp only: bit_simps) (auto simp: ac_simps)


lemma bit_uuid4_nibble:
  "bit (drop_bit (4 * k) (uuid4 r) AND 0xf) n \<longleftrightarrow>
     n < 4 \<and> 4 * k + n < 128 \<and>
     (if 76 \<le> 4 * k + n \<and> 4 * k + n < 80 then 4 * k + n = 78
      else if 62 \<le> 4 * k + n \<and> 4 * k + n < 64 then 4 * k + n = 63
      else bit r (4 * k + n))"
  by (simp only: bit_nibble bit_uuid4)

lemma version_nibble: "nibble (uuid4 r) 19 = 4"
proof -
  have "drop_bit (4 * 19) (uuid4 r) AND 0xf = (push_bit 2 1 :: 128 word)"
  proof (rule bit_word_eqI)
    fix n :: nat
    have "bit (push_bit 2 1 :: 128 word) n \<longleftrightarrow> n = 2"
      by (auto simp only: bit_simps) simp_all
    moreover have "bit (drop_bit (4 * 19) (uuid4 r) AND 0xf) n \<longleftrightarrow> n = 2"
      unfolding bit_uuid4_nibble by auto
    ultimately show "bit (drop_bit (4 * 19) (uuid4 r) AND 0xf) n \<longleftrightarrow>
        bit (push_bit 2 1 :: 128 word) n"
      by simp
  qed
  then show ?thesis
    unfolding nibble_def by simp
qed


lemma variant_nibble: "nibble (uuid4 r) 15 \<in> {8, 9, 10, 11}"
proof -
  let ?hi = "push_bit 3 1 :: 128 word"
  let ?mid = "(if bit r 61 then push_bit 1 1 else 0) :: 128 word"
  let ?lo = "(if bit r 60 then 1 else 0) :: 128 word"
  have "drop_bit (4 * 15) (uuid4 r) AND 0xf = ?hi OR ?mid OR ?lo"
  proof (rule bit_word_eqI)
    fix n :: nat
    have hi: "bit ?hi n \<longleftrightarrow> n = 3"
      by (auto simp only: bit_simps) simp_all
    have mid: "bit ?mid n \<longleftrightarrow> n = 1 \<and> bit r 61"
      by (cases "bit r 61") (auto simp only: bit_simps if_True if_False, simp_all)
    have lo: "bit ?lo n \<longleftrightarrow> n = 0 \<and> bit r 60"
      by (cases "bit r 60") (auto simp only: bit_simps if_True if_False, simp_all)
    consider "n = 0" | "n = 1" | "n = 2" | "n = 3" | "4 \<le> n"
      by arith
    then have "n < 4 \<and> 4 * 15 + n < 128 \<and>
        (if 76 \<le> 4 * 15 + n \<and> 4 * 15 + n < 80 then 4 * 15 + n = 78
         else if 62 \<le> 4 * 15 + n \<and> 4 * 15 + n < 64 then 4 * 15 + n = 63
         else bit r (4 * 15 + n)) \<longleftrightarrow>
        n = 3 \<or> n = 1 \<and> bit r 61 \<or> n = 0 \<and> bit r 60"
      by cases simp_all
    then have "bit (drop_bit (4 * 15) (uuid4 r) AND 0xf) n \<longleftrightarrow>
        n = 3 \<or> n = 1 \<and> bit r 61 \<or> n = 0 \<and> bit r 60"
      by (simp only: bit_uuid4_nibble)
    then show "bit (drop_bit (4 * 15) (uuid4 r) AND 0xf) n \<longleftrightarrow> bit (?hi OR ?mid OR ?lo) n"
      by (simp only: bit_or_iff hi mid lo)
  qed
  then have "nibble (uuid4 r) 15 = unat (?hi OR ?mid OR ?lo)"
    unfolding nibble_def by simp
  then show ?thesis
    by (cases "bit r 61"; cases "bit r 60") simp_all
qed


lemma fits_hex: "fits CHR ''x'' (hex_digit (nibble w k))"
  by (simp add: fits_def is_hex_hex_digit nibble_less)

lemma fits_version: "fits CHR ''4'' (hex_digit (nibble (uuid4 r) 19))"
  by (simp add: fits_def version_nibble hex_digit_def)

lemma fits_variant: "fits CHR ''y'' (hex_digit (nibble (uuid4 r) 15))"
  using variant_nibble [of r] by (auto simp: fits_def hex_digit_def)

lemma fits_dash: "fits CHR ''-'' CHR ''-''"
  by (simp add: fits_def)

lemma uuid_str_explicit:
  "uuid_str w =
     map (\<lambda>k. hex_digit (nibble w k)) [31, 30, 29, 28, 27, 26, 25, 24] @ ''-'' @
     map (\<lambda>k. hex_digit (nibble w k)) [23, 22, 21, 20] @ ''-'' @
     map (\<lambda>k. hex_digit (nibble w k)) [19, 18, 17, 16] @ ''-'' @
     map (\<lambda>k. hex_digit (nibble w k)) [15, 14, 13, 12] @ ''-'' @
     map (\<lambda>k. hex_digit (nibble w k)) [11, 10, 9, 8, 7, 6, 5, 4, 3, 2, 1, 0]"
  by (simp add: uuid_str_def hex32_explicit)

lemma generate_session_id_example:
  "generate_session_id self 0x0123456789abcdef0123456789abcdef =
     ''01234567-89ab-4def-8123-456789abcdef''"
  unfolding generate_session_id_def uuid_str_explicit
  by (simp add: nibble_def uuid4_def hex_digit_def)

lemma generated_id_format: "uuid4_format (generate_session_id self r)"
  unfolding uuid4_format_def generate_session_id_def uuid_str_explicit
  by (simp add: fits_hex fits_version fits_variant fits_dash)


lemma hex_digit_inject:
  assumes "n < 16" and "m < 16" and "hex_digit n = hex_digit m"
  shows "n = m"
proof -
  have "distinct ''0123456789abcdef''"
    by simp
  moreover have "n < length ''0123456789abcdef''" and "m < length ''0123456789abcdef''"
    using assms by simp_all
  ultimately show ?thesis
    using assms(3) unfolding hex_digit_def by (simp only: nth_eq_iff_index_eq)
qed

lemma nibbles_determine_word:
  assumes "\<And>k. k < 32 \<Longrightarrow> nibble w k = nibble w' k"
  shows "w = w'"
proof (rule bit_word_eqI)
  fix n :: nat
  assume "n < LENGTH(128)"
  then have k: "n div 4 < 32"
    by simp
  have split: "4 * (n div 4) + n mod 4 = n" and small: "n mod 4 < 4"
    by simp_all
  from assms [OF k]
  have same: "drop_bit (4 * (n div 4)) w AND 0xf = drop_bit (4 * (n div 4)) w' AND 0xf"
    unfolding nibble_def by (simp only: word_unat_eq_iff)
  have "bit w n \<longleftrightarrow> bit (drop_bit (4 * (n div 4)) w AND 0xf) (n mod 4)"
    by (simp only: bit_nibble split small simp_thms)
  also have "\<dots> \<longleftrightarrow> bit (drop_bit (4 * (n div 4)) w' AND 0xf) (n mod 4)"
    by (simp only: same)
  also have "\<dots> \<longleftrightarrow> bit w' n"
    by (simp only: bit_nibble split small simp_thms)
  finally show "bit w n \<longleftrightarrow> bit w' n" .
qed

lemma hex32_inject:
  assumes "hex32 w = hex32 w'"
  shows "w = w'"
proof (rule nibbles_determine_word)
  fix k :: nat
  assume k: "k < 32"
  from assms have "\<forall>i \<in> set [0..<32]. hex_digit (nibble w (31 - i)) = hex_digit (nibble w' (31 - i))"
    unfolding hex32_def by (simp only: map_eq_conv)
  moreover have "31 - k \<in> set [0..<32]" and "31 - (31 - k) = k"
    using k by simp_all
  ultimately have "hex_digit (nibble w k) = hex_digit (nibble w' k)"
    by metis
  then show "nibble w k = nibble w' k"
    by (rule hex_digit_inject [OF nibble_less nibble_less])
qed

lemma uuid_str_inject:
  assumes "uuid_str w = uuid_str w'"
  shows "w = w'"
proof (rule hex32_inject)
  from assms show "hex32 w = hex32 w'"
    unfolding uuid_str_explicit hex32_explicit by simp
qed

lemma uuid4_eq_iff:
  "uuid4 r = uuid4 r' \<longleftrightarrow>
     r AND NOT (push_bit 64 0xf000 OR push_bit 48 0xc000) =
     r' AND NOT (push_bit 64 0xf000 OR push_bit 48 0xc000)"
proof -
  have free: "bit (r AND NOT (push_bit 64 0xf000 OR push_bit 48 0xc000)) n \<longleftrightarrow>
      n < 128 \<and> \<not> (76 \<le> n \<and> n < 80) \<and> \<not> (62 \<le> n \<and> n < 64) \<and> bit r n" for r :: "128 word" and n
    unfolding uuid_constants
    by (simp only: bit_simps) (auto dest: bit_imp_le_length)
  show ?thesis
  proof
    assume eq: "uuid4 r = uuid4 r'"
    show "r AND NOT (push_bit 64 0xf000 OR push_bit 48 0xc000) =
      r' AND NOT (push_bit 64 0xf000 OR push_bit 48 0xc000)"
    proof (rule bit_word_eqI)
      fix n :: nat
      from eq have "bit (uuid4 r) n = bit (uuid4 r') n"
        by simp
      then show "bit (r AND NOT (push_bit 64 0xf000 OR push_bit 48 0xc000)) n \<longleftrightarrow>
          bit (r' AND NOT (push_bit 64 0xf000 OR push_bit 48 0xc000)) n"
        unfolding free bit_uuid4 by auto
    qed
  next
    assume eq: "r AND NOT (push_bit 64 0xf000 OR push_bit 48 0xc000) =
      r' AND NOT (push_bit 64 0xf000 OR push_bit 48 0xc000)"
    show "uuid4 r = uuid4 r'"
    proof (rule bit_word_eqI)
      fix n :: nat
      from eq have "bit (r AND NOT (push_bit 64 0xf000 OR push_bit 48 0xc000)) n =
          bit (r' AND NOT (push_bit 64 0xf000 OR push_bit 48 0xc000)) n"
        by simp
      then show "bit (uuid4 r) n \<longleftrightarrow> bit (uuid4 r') n"
        unfolding free bit_uuid4 by auto
    qed
  qed
qed

text \<open>
  C8. Whatever the random bytes are, the generated session id has the textual form of a
  version-4 UUID: 36 characters, lower-case hexadecimal digits in groups of 8, 4, 4, 4 and
  12 separated by hyphens, the version digit \<^verbatim>\<open>4\<close> and a variant digit among
  \<^verbatim>\<open>8\<close>, \<^verbatim>\<open>9\<close>, \<^verbatim>\<open>a\<close>, \<^verbatim>\<open>b\<close>. Two generated ids are the same string
  exactly when the two random draws agree on all 122 bits outside the version and variant
  fields, so every one of those bits tells ids apart.
\<close>

theorem generated_id_is_uuid4:
  "uuid4_format (generate_session_id self random_bits) \<and>
   length (generate_session_id self random_bits) = 36 \<and>
   (generate_session_id self random_bits = generate_session_id self random_bits' \<longleftrightarrow>
      random_bits AND NOT (push_bit 64 0xf000 OR push_bit 48 0xc000) =
      random_bits' AND NOT (push_bit 64 0xf000 OR push_bit 48 0xc000))"
proof (intro conjI)
  show "uuid4_format (generate_session_id self random_bits)"
    by (rule generated_id_format)
  show "length (generate_session_id self random_bits) = 36"
    unfolding generate_session_id_def uuid_str_explicit by simp
  have "generate_session_id self random_bits = generate_session_id self random_bits' \<longleftrightarrow>
      uuid4 random_bits = uuid4 random_bits'"
    unfolding generate_session_id_def by (auto dest: uuid_str_inject)
  then show "generate_session_id self random_bits = generate_session_id self random_bits' \<longleftrightarrow>
      random_bits AND NOT (push_bit 64 0xf000 OR push_bit 48 0xc000) =
      random_bits' AND NOT (push_bit 64 0xf000 OR push_bit 48 0xc000)"
    by (simp only: uuid4_eq_iff)
qed

end
